theory Spec2Isabelle
  imports Complex_Main "HOL-Library.Multiset"
begin

section \<open>Data model\<close>

text \<open>
  Numeric arrays (numpy, cupy or torch arrays in the source) are objects with an
  identity: \<^verbatim>\<open>a += b\<close> on them changes the array that \<open>a\<close> refers to. They live in
  a store, and a structure that holds an array holds its address. An array is kept as the
  list of its entries; entries are idealised as real numbers.
\<close>

type_synonym addr = nat
type_synonym array = "real list"
type_synonym heap = "addr \<Rightarrow> array"

text \<open>
  The exceptions of the source. \<open>ValueError\<close> is what \<^verbatim>\<open>verify_inputs\<close> raises (the
  specification's InconsistentBatchError), \<open>IndexError\<close> is what indexing a list out of
  range raises (for \<^verbatim>\<open>self.listeners[-1]\<close> on an empty list: the specification's
  NoListenersError), \<open>KeyError\<close> is a missing dictionary key. \<open>ShapeError\<close> stands for the
  error of the array library when two arrays of different sizes are added, \<open>TypeError\<close>
  for calling \<^verbatim>\<open>None\<close>, and \<open>ExternalError\<close> for a failure inside an external
  collaborator (tokenizer, encoder construction, weight loading).
\<close>

datatype error = ValueError | IndexError | KeyError | ShapeError | TypeError
  | AttributeError | ExternalError

record token =
  orth :: int

text \<open>
  \<^verbatim>\<open>TransformerData\<close> is declared in a module that is not part of the sources at hand;
  the code reads its field \<^verbatim>\<open>tensors\<close> and calls \<^verbatim>\<open>TransformerData.empty()\<close>.
  Modelled from the spec: the fields of PerDocumentOutput (wordpiece tokens, alignment from
  each document token to its wordpiece indices, tensors, width). The type \<open>'t\<close> is what
  stands for a tensor: its address where arrays are objects in the store, or its value.
\<close>

record 't transformer_data =
  wordpiece_tokens :: "string list"
  alignment :: "nat list list"
  tensors :: "'t list"
  width :: nat

type_synonym tdata = "addr transformer_data"

text \<open>
  Modelled from the spec: \<^verbatim>\<open>TransformerData.empty()\<close>, the distinguished empty value with
  zero wordpieces (no tokens, no alignment, no tensors).
\<close>

definition transformer_data_empty :: "'t transformer_data" where
  "transformer_data_empty =
     \<lparr>wordpiece_tokens = [], alignment = [], tensors = [], width = 0\<rparr>"

text \<open>
  A document: its tokens, and the extension slot \<^verbatim>\<open>doc._.trf_data\<close>, which is \<open>None\<close>
  until \<^verbatim>\<open>set_annotations\<close> writes it.
\<close>

record doc =
  tokens :: "token list"
  trf_data :: "tdata option"

text \<open>
  The callbacks that travel through the listeners, as data. \<open>AccumulateGradient\<close> and
  \<open>Backprop\<close> are the two closures that \<^verbatim>\<open>Transformer.update\<close> creates over the
  variables of one training step; \<open>ReturnDocs docs\<close> is \<^verbatim>\<open>lambda d_data: docs\<close>.
\<close>

datatype callback = AccumulateGradient | Backprop | ReturnDocs "doc list"

section \<open>The listener\<close>

record transformer_listener =
  upstream_name :: string
  listener_width :: nat
  batch_id :: "int option"
  outputs :: "tdata list option"
  backprop :: "callback option"

definition new_listener :: "string \<Rightarrow> nat \<Rightarrow> transformer_listener" where
  "new_listener name w =
     \<lparr>upstream_name = name, listener_width = w, batch_id = None, outputs = None,
      backprop = None\<rparr>"

text \<open>\<^verbatim>\<open>sum(sum(token.orth for token in doc) for doc in inputs)\<close> on Python's integers.\<close>

definition get_batch_id :: "doc list \<Rightarrow> int" where
  "get_batch_id inputs = sum_list (map (\<lambda>d. sum_list (map orth (tokens d))) inputs)"

text \<open>The token identities of a batch, in the order the fingerprint reads them.\<close>

definition token_ids :: "doc list \<Rightarrow> int list" where
  "token_ids inputs = concat (map (\<lambda>d. map orth (tokens d)) inputs)"

definition receive ::
  "int option \<Rightarrow> tdata list option \<Rightarrow> callback option \<Rightarrow>
   transformer_listener \<Rightarrow> transformer_listener" where
  "receive bid outs bp l = l\<lparr>batch_id := bid, outputs := outs, backprop := bp\<rparr>"

text \<open>
  \<^verbatim>\<open>verify_inputs\<close>: the first test raises only when both fields are \<open>None\<close>; the
  comparison \<^verbatim>\<open>batch_id != self._batch_id\<close> of an integer with \<open>None\<close> is true in
  Python, which is the comparison of \<open>Some\<close> with \<open>None\<close> here.
\<close>

definition verify_inputs :: "transformer_listener \<Rightarrow> doc list \<Rightarrow> error + bool" where
  "verify_inputs l inputs =
     (if batch_id l = None \<and> outputs l = None then Inl ValueError
      else let bid = get_batch_id inputs in
        if Some bid \<noteq> batch_id l then Inl ValueError else Inr True)"

text \<open>
  The listener's \<^verbatim>\<open>forward\<close>. The first component of the result is a list of
  per-document outputs; when predicting, an entry is the document's slot, which may be
  \<open>None\<close>, so entries are optional, and the stored outputs of the training branch are
  passed through entry by entry.
\<close>

definition forward ::
  "transformer_listener \<Rightarrow> doc list \<Rightarrow> bool \<Rightarrow>
   error + (tdata option list option \<times> callback option)" where
  "forward model docs is_train =
     (if is_train then
        (case verify_inputs model docs of
           Inl e \<Rightarrow> Inl e
         | Inr _ \<Rightarrow> Inr (map_option (map Some) (outputs model), backprop model))
      else if length docs = 0 then
        Inr (Some [Some transformer_data_empty], Some (ReturnDocs docs))
      else Inr (Some (map trf_data docs), Some (ReturnDocs docs)))"

text \<open>What calling \<^verbatim>\<open>lambda d_data: docs\<close> returns: the documents, whatever it is given.\<close>

definition call_return_docs :: "doc list \<Rightarrow> tdata list \<Rightarrow> doc list" where
  "call_return_docs docs d_data = docs"

section \<open>The encoder and the pipeline component\<close>

text \<open>
  \<^verbatim>\<open>FullTransformerBatch\<close> is declared in the same missing module. Modelled from the
  spec: BatchOutput with its field \<open>doc_data\<close>, the per-document outputs in input order,
  which is the only field the code reads.
\<close>

record full_transformer_batch =
  doc_data :: "tdata list"

text \<open>
  The encoder (a thinc \<^verbatim>\<open>Model\<close>) is an external collaborator, given by the functions
  the component calls: \<^verbatim>\<open>predict\<close>, and \<^verbatim>\<open>begin_update\<close>, which returns the batch and
  the encoder's backward function. \<^verbatim>\<open>unsplit_by_doc\<close> is the merge of the missing batch
  class; it is a parameter too and reads the arrays it is given. \<open>'g\<close> is the type of
  a merged batch gradient, \<open>'d\<close> the type of what the backward function returns.
\<close>

record ('g, 'd) encoder =
  predict_fn :: "doc list \<Rightarrow> full_transformer_batch"
  begin_update_fn :: "doc list \<Rightarrow> full_transformer_batch \<times> ('g \<Rightarrow> 'd)"
  unsplit_by_doc :: "full_transformer_batch \<Rightarrow> array list list \<Rightarrow> 'g"

record ('g, 'd) transformer =
  name :: string
  model :: "('g, 'd) encoder"
  annotation_setter :: "doc list \<Rightarrow> full_transformer_batch \<Rightarrow> doc list"
  max_batch_size :: int
  listeners :: "addr list"

text \<open>
  Everything the component's methods and callbacks change: the arrays, the listener
  objects (the component holds references to them), the caller's \<^verbatim>\<open>losses\<close>
  dictionary, the variable \<^verbatim>\<open>d_tensors\<close> shared by the two closures of a training step,
  and the dropout rate set on the encoder. Three fields only record what was called:
  the batches handed to \<^verbatim>\<open>predict\<close>, the gradients handed to the encoder's backward
  function, and the number of \<^verbatim>\<open>finish_update\<close> calls. The world holds the
  variables of one training step, the current one: \<^verbatim>\<open>update\<close> starts a step with a
  new empty \<^verbatim>\<open>d_tensors\<close>.
\<close>

record 'g world =
  heap :: heap
  nodes :: "addr \<Rightarrow> transformer_listener"
  losses :: "string \<Rightarrow> real option"
  d_tensors :: "addr list list"
  dropout_rate :: real
  predict_calls :: "doc list list"
  bp_calls :: "'g list"
  finish_updates :: nat

definition add_listener :: "addr \<Rightarrow> ('g, 'd) transformer \<Rightarrow> ('g, 'd) transformer" where
  "add_listener l t = t\<lparr>listeners := listeners t @ [l]\<rparr>"

text \<open>\<^verbatim>\<open>for listener in ls: listener.receive(batch_id, outs, bp)\<close> on the listener objects.\<close>

fun receive_all ::
  "int \<Rightarrow> tdata list \<Rightarrow> callback option \<Rightarrow> addr list \<Rightarrow>
   (addr \<Rightarrow> transformer_listener) \<Rightarrow> (addr \<Rightarrow> transformer_listener)" where
  "receive_all bid outs bp [] ns = ns"
| "receive_all bid outs bp (l # ls) ns =
     receive_all bid outs bp ls (ns(l := receive (Some bid) (Some outs) bp (ns l)))"

definition predict ::
  "('g, 'd) transformer \<Rightarrow> doc list \<Rightarrow> 'g world \<Rightarrow> full_transformer_batch \<times> 'g world" where
  "predict t docs w =
     (let activations = predict_fn (model t) docs;
          bid = get_batch_id docs
      in (activations,
          w\<lparr>nodes := receive_all bid (doc_data activations) None (listeners t) (nodes w),
            predict_calls := predict_calls w @ [docs]\<rparr>))"

text \<open>\<^verbatim>\<open>for doc, data in zip(docs, predictions.doc_data): doc._.trf_data = data\<close>\<close>

fun assign_trf_data :: "doc list \<Rightarrow> tdata list \<Rightarrow> doc list" where
  "assign_trf_data [] xs = []"
| "assign_trf_data (d # ds) [] = d # ds"
| "assign_trf_data (d # ds) (x # xs) = d\<lparr>trf_data := Some x\<rparr> # assign_trf_data ds xs"

definition set_annotations ::
  "('g, 'd) transformer \<Rightarrow> doc list \<Rightarrow> full_transformer_batch \<Rightarrow> doc list" where
  "set_annotations t docs predictions =
     annotation_setter t (assign_trf_data docs (doc_data predictions)) predictions"

subsection \<open>pipe\<close>

text \<open>
  \<^verbatim>\<open>spacy.util.minibatch\<close> is a library function: with an integer size it takes
  \<^verbatim>\<open>list(itertools.islice(items, size))\<close> again and again and stops at the first empty
  batch. \<^verbatim>\<open>islice\<close> accepts a size from 0 to \<^verbatim>\<open>sys.maxsize\<close> and raises
  \<open>ValueError\<close> on any other, before it reads an item; with size 0 the first batch is
  empty and nothing is yielded. \<^verbatim>\<open>sys.maxsize\<close> is that of a 64-bit platform. The
  stream is a finite list here.
\<close>

definition sys_maxsize :: int where
  "sys_maxsize = 2 ^ 63 - 1"

function chunks :: "nat \<Rightarrow> 'a list \<Rightarrow> 'a list list" where
  "chunks k [] = []"
| "chunks k (x # xs) = take (Suc k) (x # xs) # chunks k (drop k xs)"
  by pat_completeness auto
termination
  by (relation "measure (\<lambda>(k, xs). length xs)") auto

definition minibatch :: "'a list \<Rightarrow> int \<Rightarrow> error + 'a list list" where
  "minibatch items n =
     (if n < 0 \<or> sys_maxsize < n then Inl ValueError
      else if n = 0 then Inr []
      else Inr (chunks (nat n - 1) items))"

text \<open>
  What the stream holds: documents, or examples that carry a document
  (\<^verbatim>\<open>eg2doc\<close> returns a document as it is and an example's \<^verbatim>\<open>.doc\<close>).
\<close>

record example =
  eg_doc :: doc

datatype item = ItemDoc doc | ItemExample example

fun eg2doc :: "item \<Rightarrow> doc" where
  "eg2doc (ItemDoc d) = d"
| "eg2doc (ItemExample e) = eg_doc e"

fun is_doc :: "item \<Rightarrow> bool" where
  "is_doc (ItemDoc d) = True"
| "is_doc (ItemExample e) = False"

text \<open>
  The documents are objects shared with the items of the batch, so what
  \<^verbatim>\<open>set_annotations\<close> writes is seen in the items that are yielded.
\<close>

fun put_doc :: "item \<Rightarrow> doc \<Rightarrow> item" where
  "put_doc (ItemDoc _) d = ItemDoc d"
| "put_doc (ItemExample e) d = ItemExample (e\<lparr>eg_doc := d\<rparr>)"

text \<open>
  Without \<^verbatim>\<open>as_example\<close> the batch itself is handed to the encoder; an item that is
  not a document is then no input of the encoder, which is a \<open>TypeError\<close> here.
\<close>

definition batch_docs :: "bool \<Rightarrow> item list \<Rightarrow> error + doc list" where
  "batch_docs as_example batch =
     (if as_example then Inr (map eg2doc batch)
      else if list_all is_doc batch then Inr (map eg2doc batch)
      else Inl TypeError)"

fun pipe_loop ::
  "('g, 'd) transformer \<Rightarrow> bool \<Rightarrow> item list list \<Rightarrow> 'g world \<Rightarrow>
   error + (item list \<times> 'g world)" where
  "pipe_loop t as_example [] w = Inr ([], w)"
| "pipe_loop t as_example (batch # rest) w =
     (case batch_docs as_example batch of
        Inl e \<Rightarrow> Inl e
      | Inr docs \<Rightarrow>
          (let (outs, w1) = predict t docs w;
               docs1 = set_annotations t docs outs
           in case pipe_loop t as_example rest w1 of
                Inl e \<Rightarrow> Inl e
              | Inr (ys, w2) \<Rightarrow> Inr (map2 put_doc batch docs1 @ ys, w2)))"

text \<open>\<^verbatim>\<open>pipe\<close>, run until the generator is exhausted.\<close>

definition pipe ::
  "('g, 'd) transformer \<Rightarrow> item list \<Rightarrow> int \<Rightarrow> bool \<Rightarrow> 'g world \<Rightarrow>
   error + (item list \<times> 'g world)" where
  "pipe t stream batch_size as_example w =
     (let batch_size1 = max batch_size (max_batch_size t)
      in case minibatch stream batch_size1 of
           Inl e \<Rightarrow> Inl e
         | Inr batches \<Rightarrow> pipe_loop t as_example batches w)"

text \<open>The batches that were handed to \<^verbatim>\<open>predict\<close> in a run of \<^verbatim>\<open>pipe\<close>.\<close>

definition calls_of :: "error + (item list \<times> 'g world) \<Rightarrow> error + doc list list" where
  "calls_of r = map_sum id (\<lambda>p. predict_calls (snd p)) r"

subsection \<open>update and its two callbacks\<close>

text \<open>\<^verbatim>\<open>float((d_tensor ** 2).sum())\<close>\<close>

definition sum_squares :: "array \<Rightarrow> real" where
  "sum_squares xs = sum_list (map (\<lambda>x. x * x) xs)"

text \<open>
  \<^verbatim>\<open>for d_tensor in d_trf_data.tensors: losses[self.name] += float(...)\<close>; reading a key
  that the dictionary does not hold raises \<open>KeyError\<close>.
\<close>

fun loss_loop ::
  "string \<Rightarrow> heap \<Rightarrow> addr list \<Rightarrow> (string \<Rightarrow> real option) \<Rightarrow>
   error + (string \<Rightarrow> real option)" where
  "loss_loop n h [] ls = Inr ls"
| "loss_loop n h (a # as) ls =
     (case ls n of
        None \<Rightarrow> Inl KeyError
      | Some v \<Rightarrow> loss_loop n h as (ls(n \<mapsto> v + sum_squares (h a))))"

text \<open>
  \<^verbatim>\<open>x += y\<close> on two arrays: the array at the address of \<open>x\<close> is overwritten with the
  entrywise sum, and \<open>x\<close> still refers to it. Arrays are one-dimensional here, the shape
  of an array being its length: an array of one entry is broadcast, its entry added to
  every entry of \<open>x\<close>, and any other difference of lengths is an error of the array
  library.
\<close>

definition iadd :: "heap \<Rightarrow> addr \<Rightarrow> addr \<Rightarrow> error + heap" where
  "iadd h a b =
     (if length (h a) = length (h b) then Inr (h(a := map2 (+) (h a) (h b)))
      else if length (h b) = 1 then Inr (h(a := map (\<lambda>x. x + hd (h b)) (h a)))
      else Inl ShapeError)"

text \<open>
  \<^verbatim>\<open>for j, d_tensor in enumerate(d_trf_data.tensors): d_tensors[i][j] += d_tensor\<close>.
  The second argument is the list \<^verbatim>\<open>d_tensors[i]\<close> from position \<open>j\<close> on; it is walked in
  step with the tensors, and \<^verbatim>\<open>d_tensors[i][j]\<close> raises \<open>IndexError\<close> when it is too
  short. Storing the result back at \<^verbatim>\<open>d_tensors[i][j]\<close> stores the same address again.
\<close>

fun add_loop :: "heap \<Rightarrow> addr list \<Rightarrow> addr list \<Rightarrow> error + heap" where
  "add_loop h row [] = Inr h"
| "add_loop h [] (a # as) = Inl IndexError"
| "add_loop h (r # row) (a # as) =
     (case iadd h r a of Inl e \<Rightarrow> Inl e | Inr h1 \<Rightarrow> add_loop h1 row as)"

text \<open>
  The loop of \<^verbatim>\<open>accumulate_gradient\<close> from index \<open>i\<close> on.
  \<^verbatim>\<open>d_tensors.append(d_trf_data.tensors)\<close> appends the list of the caller's arrays
  itself, not a copy of the arrays.
\<close>

fun accumulate_loop ::
  "string \<Rightarrow> nat \<Rightarrow> tdata list \<Rightarrow> 'g world \<Rightarrow> error + 'g world" where
  "accumulate_loop n i [] w = Inr w"
| "accumulate_loop n i (d # ds) w =
     (case loss_loop n (heap w) (tensors d) (losses w) of
        Inl e \<Rightarrow> Inl e
      | Inr ls \<Rightarrow>
          if i \<ge> length (d_tensors w) then
            accumulate_loop n (Suc i) ds
              (w\<lparr>losses := ls, d_tensors := d_tensors w @ [tensors d]\<rparr>)
          else
            (case add_loop (heap w) (d_tensors w ! i) (tensors d) of
               Inl e \<Rightarrow> Inl e
             | Inr h \<Rightarrow> accumulate_loop n (Suc i) ds (w\<lparr>losses := ls, heap := h\<rparr>)))"

text \<open>
  What the two closures capture besides \<^verbatim>\<open>d_tensors\<close> and \<^verbatim>\<open>losses\<close>: the component
  (its name and its encoder), the batch and the backward function that
  \<^verbatim>\<open>begin_update\<close> returned, and whether an optimizer was given.
\<close>

record ('g, 'd) closure_env =
  env_name :: string
  env_model :: "('g, 'd) encoder"
  env_trf_full :: full_transformer_batch
  env_bp_trf_full :: "'g \<Rightarrow> 'd"
  env_sgd :: bool

definition accumulate_gradient ::
  "('g, 'd) closure_env \<Rightarrow> tdata list \<Rightarrow> 'g world \<Rightarrow> error + 'g world" where
  "accumulate_gradient env d_trf_datas w = accumulate_loop (env_name env) 0 d_trf_datas w"

text \<open>
  The closure \<^verbatim>\<open>backprop\<close> of \<^verbatim>\<open>update\<close>: accumulate, merge what \<^verbatim>\<open>d_tensors\<close> now
  refers to, call the encoder's backward function on it once, and step the optimizer if
  there is one.
\<close>

definition backprop_closure ::
  "('g, 'd) closure_env \<Rightarrow> tdata list \<Rightarrow> 'g world \<Rightarrow> error + ('d \<times> 'g world)" where
  "backprop_closure env d_trf_datas w =
     (case accumulate_gradient env d_trf_datas w of
        Inl e \<Rightarrow> Inl e
      | Inr w1 \<Rightarrow>
          (let d_trf_full =
                 unsplit_by_doc (env_model env) (env_trf_full env)
                   (map (map (heap w1)) (d_tensors w1));
               d_docs = env_bp_trf_full env d_trf_full;
               w2 = w1\<lparr>bp_calls := bp_calls w1 @ [d_trf_full]\<rparr>;
               w3 = (if env_sgd env then w2\<lparr>finish_updates := Suc (finish_updates w2)\<rparr>
                     else w2)
           in Inr (d_docs, w3)))"

text \<open>Calling a callback that a listener handed out.\<close>

datatype 'd returned = ReturnedNone | ReturnedDocs "doc list" | ReturnedBackward 'd

fun call ::
  "('g, 'd) closure_env \<Rightarrow> callback \<Rightarrow> tdata list \<Rightarrow> 'g world \<Rightarrow>
   error + ('d returned \<times> 'g world)" where
  "call env AccumulateGradient d w =
     (case accumulate_gradient env d w of
        Inl e \<Rightarrow> Inl e
      | Inr w1 \<Rightarrow> Inr (ReturnedNone, w1))"
| "call env Backprop d w =
     (case backprop_closure env d w of
        Inl e \<Rightarrow> Inl e
      | Inr (r, w1) \<Rightarrow> Inr (ReturnedBackward r, w1))"
| "call env (ReturnDocs docs) d w = Inr (ReturnedDocs (call_return_docs docs d), w)"

text \<open>
  A listener's downstream layer calls the callback it got from the listener, or fails on
  \<open>None\<close>. \<open>call_all\<close> makes such calls one after the other.
\<close>

fun call_all ::
  "('g, 'd) closure_env \<Rightarrow> (callback option \<times> tdata list) list \<Rightarrow> 'g world \<Rightarrow>
   error + 'g world" where
  "call_all env [] w = Inr w"
| "call_all env ((None, d) # cs) w = Inl TypeError"
| "call_all env ((Some c, d) # cs) w =
     (case call env c d w of
        Inl e \<Rightarrow> Inl e
      | Inr (r, w1) \<Rightarrow> call_all env cs w1)"

text \<open>
  \<^verbatim>\<open>update\<close>. The examples are \<^verbatim>\<open>Example\<close> objects already, and their
  documents are a list, never a single document (the \<^verbatim>\<open>isinstance\<close> test is false).
  \<^verbatim>\<open>losses\<close> is the caller's dictionary or \<open>None\<close>, in which case a new one is made.
  \<^verbatim>\<open>self.listeners[:-1]\<close> is \<open>butlast\<close>, and \<^verbatim>\<open>self.listeners[-1]\<close> raises
  \<open>IndexError\<close> on the empty list. The result holds the closures' environment, and the
  documents as \<^verbatim>\<open>set_annotations\<close> left them.
\<close>

definition update ::
  "('g, 'd) transformer \<Rightarrow> example list \<Rightarrow> real \<Rightarrow> bool \<Rightarrow> (string \<Rightarrow> real option) option \<Rightarrow>
   bool \<Rightarrow> 'g world \<Rightarrow> error + (('g, 'd) closure_env \<times> doc list \<times> 'g world)" where
  "update t examples drop_rate sgd losses_arg set_annot w =
     (let losses0 = (case losses_arg of None \<Rightarrow> Map.empty | Some ls \<Rightarrow> ls);
          docs = map eg_doc examples;
          w1 = w\<lparr>dropout_rate := drop_rate\<rparr>;
          (trf_full, bp_trf_full) = begin_update_fn (model t) docs;
          w2 = w1\<lparr>d_tensors := [],
                  losses := (case losses0 (name t) of
                               None \<Rightarrow> losses0(name t \<mapsto> 0)
                             | Some v \<Rightarrow> losses0)\<rparr>;
          env = \<lparr>env_name = name t, env_model = model t, env_trf_full = trf_full,
                 env_bp_trf_full = bp_trf_full, env_sgd = sgd\<rparr>;
          bid = get_batch_id docs;
          ns1 = receive_all bid (doc_data trf_full) (Some AccumulateGradient)
                  (butlast (listeners t)) (nodes w2)
      in if listeners t = [] then Inl IndexError
         else
           (let l = last (listeners t);
                ns2 = ns1(l := receive (Some bid) (Some (doc_data trf_full)) (Some Backprop) (ns1 l));
                w3 = w2\<lparr>nodes := ns2\<rparr>
            in Inr (env, if set_annot then set_annotations t docs trf_full else docs, w3)))"

section \<open>The serialization shim\<close>

text \<open>
  The values that msgpack encodes: \<open>None\<close>, booleans, integers, strings, byte strings,
  lists, and dictionaries with string keys (a list of pairs in insertion order, keys
  distinct).
\<close>

datatype msgval = MNone | MBool bool | MInt int | MStr string | MBin "nat list"
  | MList "msgval list" | MMap "(string \<times> msgval) list"

text \<open>Python's truth value, as \<^verbatim>\<open>if config_dict:\<close> takes it.\<close>

fun truthy :: "msgval \<Rightarrow> bool" where
  "truthy MNone = False"
| "truthy (MBool b) = b"
| "truthy (MInt i) = (i \<noteq> 0)"
| "truthy (MStr s) = (s \<noteq> [])"
| "truthy (MBin b) = (b \<noteq> [])"
| "truthy (MList xs) = (xs \<noteq> [])"
| "truthy (MMap kvs) = (kvs \<noteq> [])"

text \<open>\<^verbatim>\<open>msg[key]\<close>: \<open>KeyError\<close> when the key is missing, \<open>TypeError\<close> on what is no dictionary.\<close>

fun getitem :: "msgval \<Rightarrow> string \<Rightarrow> error + msgval" where
  "getitem (MMap kvs) k = (case map_of kvs k of None \<Rightarrow> Inl KeyError | Some v \<Rightarrow> Inr v)"
| "getitem v k = Inl TypeError"

text \<open>\<^verbatim>\<open>d[key] = value\<close> on a dictionary: a key that is there keeps its place.\<close>

fun dict_set :: "(string \<times> 'v) list \<Rightarrow> string \<Rightarrow> 'v \<Rightarrow> (string \<times> 'v) list" where
  "dict_set [] k v = [(k, v)]"
| "dict_set ((k1, v1) # kvs) k v =
     (if k1 = k then (k, v) # kvs else (k1, v1) # dict_set kvs k v)"

text \<open>\<^verbatim>\<open>tok_dict.items()\<close>: only a dictionary has the method.\<close>

fun items :: "msgval \<Rightarrow> error + (string \<times> msgval) list" where
  "items (MMap kvs) = Inr kvs"
| "items v = Inl AttributeError"

datatype device = Cpu | Cuda nat

text \<open>
  \<^verbatim>\<open>HFObjects\<close>: the encoder and the tokenizer, either of which may be \<open>None\<close>, and the
  two dictionaries of call-time options.
\<close>

record ('m, 'k) hf_objects =
  transformer :: "'m option"
  tokenizer :: "'k option"
  tokenizer_config :: msgval
  transformer_config :: msgval

text \<open>
  \<^verbatim>\<open>HFShim\<close>: \<^verbatim>\<open>_hfmodel\<close>, and \<^verbatim>\<open>_model\<close> of the base class, which the constructor
  sets to \<^verbatim>\<open>model.transformer\<close>.
\<close>

record ('m, 'k) hf_shim =
  hfmodel :: "('m, 'k) hf_objects"
  shim_model :: "'m option"

definition new_hf_shim :: "('m, 'k) hf_objects \<Rightarrow> ('m, 'k) hf_shim" where
  "new_hf_shim m = \<lparr>hfmodel = m, shim_model = transformer m\<rparr>"

text \<open>
  The libraries the shim calls, as parameters. \<open>'b\<close> is the type of the encoded bytes,
  \<open>'m\<close> of an encoder, \<open>'k\<close> of a tokenizer, \<open>'c\<close> of a configuration object.
  \<open>save_pretrained\<close> gives the files the tokenizer writes (name and content, in the order
  the directory is listed); \<open>auto_tokenizer\<close> is given the configuration and the files
  written to the temporary directory, and the keyword arguments.
\<close>

record ('b, 'm, 'k, 'c) hf_lib =
  msgpack_dumps :: "msgval \<Rightarrow> 'b"
  msgpack_loads :: "'b \<Rightarrow> error + msgval"
  config_to_dict :: "'m \<Rightarrow> msgval"
  save_pretrained :: "'k \<Rightarrow> error + (string \<times> nat list) list"
  torch_save :: "'m \<Rightarrow> error + nat list"
  auto_config :: "msgval \<Rightarrow> error + 'c"
  auto_tokenizer :: "msgval \<Rightarrow> (string \<times> msgval) list \<Rightarrow> msgval \<Rightarrow> error + 'k"
  auto_model :: "'c \<Rightarrow> error + 'm"
  bind_forward :: "'m \<Rightarrow> msgval \<Rightarrow> error + 'm"
  load_state_dict :: "'m \<Rightarrow> msgval \<Rightarrow> device \<Rightarrow> error + 'm"
  device_type :: string
  cuda_current_device :: nat

text \<open>One step after another, the first error ending the run as a raised exception does.\<close>

definition and_then :: "'e + 'a \<Rightarrow> ('a \<Rightarrow> 'e + 'b) \<Rightarrow> 'e + 'b" where
  "and_then m f = (case m of Inl e \<Rightarrow> Inl e | Inr x \<Rightarrow> f x)"

text \<open>
  The dictionary that \<^verbatim>\<open>to_bytes\<close> builds. The three variables start as empty
  dictionaries (the weights too) and are filled only when there is an encoder.
\<close>

definition to_bytes_msg ::
  "('b, 'm, 'k, 'c) hf_lib \<Rightarrow> ('m, 'k) hf_shim \<Rightarrow> error + (string \<times> msgval) list" where
  "to_bytes_msg lib self =
     (let hf_model = hfmodel self;
          filled =
            (case transformer hf_model of
               None \<Rightarrow> Inr (MMap [], MMap [], MMap [])
             | Some trf \<Rightarrow>
                 (let config = config_to_dict lib trf in
                  case tokenizer hf_model of
                    None \<Rightarrow> Inl AttributeError
                  | Some tok \<Rightarrow>
                      (case save_pretrained lib tok of
                         Inl e \<Rightarrow> Inl e
                       | Inr files \<Rightarrow>
                           (let tok_dict = fold (\<lambda>(x, b) d. dict_set d x (MBin b)) files []
                            in case shim_model self of
                                 None \<Rightarrow> Inl AttributeError
                               | Some m \<Rightarrow>
                                   (case torch_save lib m of
                                      Inl e \<Rightarrow> Inl e
                                    | Inr weights_bytes \<Rightarrow>
                                        Inr (config, MMap tok_dict, MBin weights_bytes))))))
      in case filled of
           Inl e \<Rightarrow> Inl e
         | Inr (config, tok_dict, weights_bytes) \<Rightarrow>
             Inr [(''config'', config),
                  (''state'', weights_bytes),
                  (''tokenizer'', tok_dict),
                  (''tokenizer_config'', tokenizer_config hf_model),
                  (''transformer_config'', transformer_config hf_model)])"

definition to_bytes :: "('b, 'm, 'k, 'c) hf_lib \<Rightarrow> ('m, 'k) hf_shim \<Rightarrow> error + 'b" where
  "to_bytes lib self =
     (case to_bytes_msg lib self of
        Inl e \<Rightarrow> Inl e
      | Inr msg \<Rightarrow> Inr (msgpack_dumps lib (MMap msg)))"

text \<open>
  \<^verbatim>\<open>from_bytes\<close>. The encoder that is built is one object, held by \<^verbatim>\<open>_hfmodel\<close> and
  by \<^verbatim>\<open>_model\<close>, so both see the loaded weights. The method returns \<^verbatim>\<open>self\<close>.
\<close>

definition from_bytes ::
  "('b, 'm, 'k, 'c) hf_lib \<Rightarrow> ('m, 'k) hf_shim \<Rightarrow> 'b \<Rightarrow> error + ('m, 'k) hf_shim" where
  "from_bytes lib self bytes_data =
     and_then (msgpack_loads lib bytes_data) (\<lambda>msg.
     and_then (getitem msg ''config'') (\<lambda>config_dict.
     and_then (getitem msg ''tokenizer'') (\<lambda>tok_dict.
     and_then (getitem msg ''tokenizer_config'') (\<lambda>tok_config.
     and_then (getitem msg ''transformer_config'') (\<lambda>trf_config.
       if truthy config_dict then
         and_then (auto_config lib config_dict) (\<lambda>config.
         and_then (items tok_dict) (\<lambda>files.
         and_then (auto_tokenizer lib config_dict files tok_config) (\<lambda>tok.
         and_then (auto_model lib config) (\<lambda>trf0.
         and_then (bind_forward lib trf0 trf_config) (\<lambda>trf.
         and_then (getitem msg ''state'') (\<lambda>state.
           let map_location =
                 (if device_type lib = ''cpu'' then Cpu else Cuda (cuda_current_device lib))
           in and_then (load_state_dict lib trf state map_location) (\<lambda>m.
                Inr (self\<lparr>hfmodel :=
                             \<lparr>transformer = Some m, tokenizer = Some tok,
                              tokenizer_config = tok_config,
                              transformer_config = trf_config\<rparr>,
                           shim_model := Some m\<rparr>))))))))
       else Inr self)))))"

text \<open>A shim holds a live model when it refers to an encoder.\<close>

definition holds_live_model :: "('m, 'k) hf_shim \<Rightarrow> bool" where
  "holds_live_model self = (transformer (hfmodel self) \<noteq> None \<or> shim_model self \<noteq> None)"

section \<open>Splitting a batch by document and merging gradients\<close>

text \<open>
  The layer of \<^verbatim>\<open>split_trf.py\<close> returns \<^verbatim>\<open>trf_full.doc_data\<close> and a callback that
  calls \<^verbatim>\<open>trf_full.unsplit_by_doc\<close> on the tensors of the gradients; both belong to the
  batch class, whose module is not part of the sources at hand.

  Modelled from the spec: BatchOutput. The tokenizer's batched input is kept as the
  wordpiece tokens of each document, whose number is the document's span in its row; the
  rows of every tensor have \<open>seq_len\<close> positions, the positions after the span being
  padding. An entry of type \<open>'a\<close> is what a tensor holds at one position.
\<close>

record 'a batch_output =
  batch_wordpieces :: "string list list"
  batch_alignment :: "nat list list list"
  seq_len :: nat
  hidden_width :: nat
  model_tensors :: "'a list list list"

definition doc_span :: "'a batch_output \<Rightarrow> nat \<Rightarrow> nat" where
  "doc_span b i = length (batch_wordpieces b ! i)"

definition n_docs :: "'a batch_output \<Rightarrow> nat" where
  "n_docs b = length (batch_wordpieces b)"

text \<open>
  Modelled from the spec: split. For each document, in input order, every tensor's row of
  the document is cut to the document's span; an empty batch gives the single empty
  value. The tensors cut are those of the second argument, which has the shape of
  \<open>model_tensors\<close> (the outputs themselves, or a gradient put in their place).
\<close>

definition split_by_doc ::
  "'a batch_output \<Rightarrow> 'a list list list \<Rightarrow> ('a list) transformer_data list" where
  "split_by_doc b ts =
     (if n_docs b = 0 then [transformer_data_empty]
      else map (\<lambda>i. \<lparr>wordpiece_tokens = batch_wordpieces b ! i,
                      alignment = batch_alignment b ! i,
                      tensors = map (\<lambda>t. take (doc_span b i) (t ! i)) ts,
                      width = hidden_width b\<rparr>) [0..<n_docs b])"

definition doc_data_of :: "'a batch_output \<Rightarrow> ('a list) transformer_data list" where
  "doc_data_of b = split_by_doc b (model_tensors b)"

text \<open>
  Modelled from the spec: merge. Each document's gradient tensor goes back to the
  document's row and the padding positions are filled with zero; a document that comes
  without a gradient tensor contributes a row of zeros.
\<close>

definition merge_row :: "nat \<Rightarrow> ('a::zero) list list list \<Rightarrow> nat \<Rightarrow> nat \<Rightarrow> 'a list" where
  "merge_row n slices k i =
     (let xs = (if i < length slices \<and> k < length (slices ! i) then slices ! i ! k else [])
      in xs @ replicate (n - length xs) 0)"

definition unsplit_by_doc_spec ::
  "('a::zero) batch_output \<Rightarrow> 'a list list list \<Rightarrow> 'a list list list" where
  "unsplit_by_doc_spec b slices =
     map (\<lambda>k. map (\<lambda>i. merge_row (seq_len b) slices k i) [0..<n_docs b])
       [0..<length (model_tensors b)]"

text \<open>The layer's \<^verbatim>\<open>forward\<close> of \<^verbatim>\<open>split_trf.py\<close>, on this batch.\<close>

definition split_trf_forward ::
  "('a::zero) batch_output \<Rightarrow>
   ('a list) transformer_data list \<times> (('a list) transformer_data list \<Rightarrow> 'a list list list)" where
  "split_trf_forward trf_full =
     (doc_data_of trf_full, \<lambda>d_trf_datas. unsplit_by_doc_spec trf_full (map tensors d_trf_datas))"

text \<open>
  A gradient tensor sequence matches the shape of the batch's tensors: as many tensors,
  one row per document, \<open>seq_len\<close> positions per row, and no span longer than a row.
\<close>

definition matches_shape :: "'a batch_output \<Rightarrow> 'a list list list \<Rightarrow> bool" where
  "matches_shape b g =
     (length g = length (model_tensors b)
      \<and> list_all (\<lambda>t. length t = n_docs b \<and> list_all (\<lambda>row. length row = seq_len b) t) g
      \<and> list_all (\<lambda>ws. length ws \<le> seq_len b) (batch_wordpieces b))"

text \<open>
  The specification's words "modulo padding positions": the same tensors with every
  padding position set to zero.
\<close>

definition zero_padding :: "('a::zero) batch_output \<Rightarrow> 'a list list list \<Rightarrow> 'a list list list" where
  "zero_padding b g =
     map (\<lambda>t. map (\<lambda>i. take (doc_span b i) (t ! i) @ replicate (seq_len b - doc_span b i) 0)
                 [0..<length t]) g"

section \<open>Gradients as values\<close>








definition merge_and_backward :: "('g, 'd) closure_env \<Rightarrow> 'g world \<Rightarrow> 'g world" where
  "merge_and_backward env w1 =
     (let d_trf_full =
            unsplit_by_doc (env_model env) (env_trf_full env)
              (map (map (heap w1)) (d_tensors w1));
          w2 = w1\<lparr>bp_calls := bp_calls w1 @ [d_trf_full]\<rparr>
      in if env_sgd env then w2\<lparr>finish_updates := Suc (finish_updates w2)\<rparr> else w2)"

definition array_at :: "addr \<Rightarrow> 'g world \<Rightarrow> array" where
  "array_at a w = heap w a"

section \<open>Sample values\<close>

text \<open>
  Small concrete values on which the theorems below are instantiated: an encoder that
  returns one empty output per document and whose merge and backward functions hand
  their argument back, a component with batch size 2 over given listeners, a world with
  a given store of arrays and fresh listeners, and a document with given token
  identities.
\<close>

definition sample_encoder :: "(array list list, array list list) encoder" where
  "sample_encoder =
     \<lparr>predict_fn = (\<lambda>docs. \<lparr>doc_data = map (\<lambda>d. transformer_data_empty) docs\<rparr>),
      begin_update_fn =
        (\<lambda>docs. (\<lparr>doc_data = map (\<lambda>d. transformer_data_empty) docs\<rparr>, \<lambda>g. g)),
      unsplit_by_doc = (\<lambda>b xs. xs)\<rparr>"

definition sample_transformer ::
  "addr list \<Rightarrow> (array list list, array list list) transformer" where
  "sample_transformer ls =
     \<lparr>name = ''transformer'', model = sample_encoder, annotation_setter = (\<lambda>docs b. docs),
      max_batch_size = 2, listeners = ls\<rparr>"

definition sample_world :: "heap \<Rightarrow> (array list list) world" where
  "sample_world h =
     \<lparr>heap = h, nodes = (\<lambda>a. new_listener ''transformer'' 1), losses = Map.empty,
      d_tensors = [], dropout_rate = 0, predict_calls = [], bp_calls = [],
      finish_updates = 0\<rparr>"

definition sample_doc :: "int list \<Rightarrow> doc" where
  "sample_doc ids = \<lparr>tokens = map (\<lambda>i. \<lparr>orth = i\<rparr>) ids, trf_data = None\<rparr>"

definition sample_stream :: "item list" where
  "sample_stream = [ItemDoc (sample_doc [1]), ItemDoc (sample_doc [2]), ItemDoc (sample_doc [3])]"

text \<open>
  A store with three arrays of two entries, and the gradient for one document that
  consists of the one array at a given address.
\<close>

definition sample_heap :: heap where
  "sample_heap = (\<lambda>a. [])(0 := [1, 2], 1 := [10, 20], 2 := [100, 200])"

definition sample_gradient :: "addr \<Rightarrow> tdata list" where
  "sample_gradient a = [\<lparr>wordpiece_tokens = [], alignment = [], tensors = [a], width = 2\<rparr>]"

text \<open>
  A training step of the sample component with the two listeners 5 and 7 on one
  document: what \<^verbatim>\<open>update\<close> returns, the closures' environment, and the world after it.
\<close>

definition sample_step ::
  "(array list list, array list list) closure_env \<times> doc list \<times> (array list list) world" where
  "sample_step =
     projr (update (sample_transformer [5, 7]) [\<lparr>eg_doc = sample_doc [1, 2]\<rparr>] 0 True None
              False (sample_world sample_heap))"

definition sample_env :: "(array list list, array list list) closure_env" where
  "sample_env = fst sample_step"

definition sample_trained :: "(array list list) world" where
  "sample_trained = snd (snd sample_step)"


definition sample_accumulated :: "(array list list) world" where
  "sample_accumulated = projr (accumulate_gradient sample_env (sample_gradient 0) sample_trained)"

text \<open>What the second listener's callback then returns, and the world after it.\<close>

definition sample_finalized :: "array list list \<times> (array list list) world" where
  "sample_finalized = projr (backprop_closure sample_env (sample_gradient 1) sample_accumulated)"

text \<open>
  A codec library whose encoding is the identity on the dictionary, an encoder and a
  tokenizer that are numbers, a shim without a model and a shim with one, and the bundle
  of a shim without a model.
\<close>

definition sample_lib :: "(msgval, nat, nat, msgval) hf_lib" where
  "sample_lib =
     \<lparr>msgpack_dumps = (\<lambda>m. m), msgpack_loads = (\<lambda>b. Inr b),
      config_to_dict = (\<lambda>m. MMap [(''hidden_size'', MInt (int m))]),
      save_pretrained = (\<lambda>k. Inr [(''vocab.txt'', [104, 105])]),
      torch_save = (\<lambda>m. Inr [m]),
      auto_config = (\<lambda>c. Inr c),
      auto_tokenizer = (\<lambda>c files kw. Inr 0),
      auto_model = (\<lambda>c. Inr 0),
      bind_forward = (\<lambda>m kw. Inr m),
      load_state_dict = (\<lambda>m st dev. Inr m),
      device_type = ''cpu'', cuda_current_device = 0\<rparr>"

definition sample_empty_shim :: "(nat, nat) hf_shim" where
  "sample_empty_shim =
     new_hf_shim \<lparr>transformer = None, tokenizer = None, tokenizer_config = MMap [],
                  transformer_config = MMap []\<rparr>"

definition sample_live_shim :: "(nat, nat) hf_shim" where
  "sample_live_shim =
     new_hf_shim \<lparr>transformer = Some 768, tokenizer = Some 1, tokenizer_config = MMap [],
                  transformer_config = MMap []\<rparr>"

definition sample_empty_bundle :: msgval where
  "sample_empty_bundle =
     MMap [(''config'', MMap []), (''state'', MMap []), (''tokenizer'', MMap []),
           (''tokenizer_config'', MMap []), (''transformer_config'', MMap [])]"

text \<open>
  A batch of two documents with five and two wordpieces in rows of five positions, with
  one tensor of integer entries, and a gradient of ones of the same shape.
\<close>

definition sample_batch :: "int batch_output" where
  "sample_batch =
     \<lparr>batch_wordpieces = [[''the'', ''cat'', ''sat'', ''do'', ''wn''], [''hi'', ''!'']],
      batch_alignment = [[[0], [1], [2], [3, 4]], [[0], [1]]],
      seq_len = 5, hidden_width = 1,
      model_tensors = [[[3, 1, 4, 1, 5], [9, 2, 0, 0, 0]]]\<rparr>"

definition sample_ones :: "int list list list" where
  "sample_ones = [[[1, 1, 1, 1, 1], [1, 1, 1, 1, 1]]]"

section \<open>Properties of the listener\<close>

lemma get_batch_id_sum_list: "get_batch_id inputs = sum_list (token_ids inputs)"
  by (induction inputs) (simp_all add: get_batch_id_def token_ids_def)

lemma get_batch_id_sum_mset: "get_batch_id inputs = sum_mset (mset (token_ids inputs))"
  by (simp add: get_batch_id_sum_list sum_mset_sum_list)

text \<open>
  Claim C3. In training mode the listener's \<^verbatim>\<open>forward\<close> fails with the error of
  \<^verbatim>\<open>verify_inputs\<close> when no batch identity was ever received or when the identity
  computed from the documents is not the stored one; in every other case it returns the
  stored outputs and the stored callback as they are.
\<close>

theorem consume_training:
  "forward l docs True =
     (if batch_id l = None \<or> batch_id l \<noteq> Some (get_batch_id docs) then Inl ValueError
      else Inr (map_option (map Some) (outputs l), backprop l))"
  by (auto simp: forward_def verify_inputs_def Let_def)

theorem consume_training_witness:
  "forward (receive (Some 3) (Some [transformer_data_empty]) (Some Backprop)
              (new_listener ''transformer'' 4))
      [\<lparr>tokens = [\<lparr>orth = 1\<rparr>, \<lparr>orth = 2\<rparr>], trf_data = None\<rparr>] True
     = Inr (Some [Some transformer_data_empty], Some Backprop)
   \<and> forward (receive (Some 3) (Some [transformer_data_empty]) (Some Backprop)
              (new_listener ''transformer'' 4))
      [\<lparr>tokens = [\<lparr>orth = 1\<rparr>, \<lparr>orth = 5\<rparr>], trf_data = None\<rparr>] True
     = Inl ValueError
   \<and> forward (new_listener ''transformer'' 4)
      [\<lparr>tokens = [\<lparr>orth = 1\<rparr>, \<lparr>orth = 2\<rparr>], trf_data = None\<rparr>] True
     = Inl ValueError"
  using
    consume_training [of "receive (Some 3) (Some [transformer_data_empty]) (Some Backprop)
        (new_listener ''transformer'' 4)"
      "[\<lparr>tokens = [\<lparr>orth = 1\<rparr>, \<lparr>orth = 2\<rparr>], trf_data = None\<rparr>]"]
    consume_training [of "receive (Some 3) (Some [transformer_data_empty]) (Some Backprop)
        (new_listener ''transformer'' 4)"
      "[\<lparr>tokens = [\<lparr>orth = 1\<rparr>, \<lparr>orth = 5\<rparr>], trf_data = None\<rparr>]"]
    consume_training [of "new_listener ''transformer'' 4"
      "[\<lparr>tokens = [\<lparr>orth = 1\<rparr>, \<lparr>orth = 2\<rparr>], trf_data = None\<rparr>]"]
  by (simp add: receive_def new_listener_def get_batch_id_def)

text \<open>
  Claim C4, as stated, fails: the fingerprint is a sum, and a sum does not see the order.
  Two documents swapped, and two tokens swapped inside a document, give batches that
  differ and have the same fingerprint.
\<close>

theorem fingerprint_order_counterexample:
  "[\<lparr>tokens = [\<lparr>orth = 1\<rparr>], trf_data = None\<rparr>, \<lparr>tokens = [\<lparr>orth = 2\<rparr>], trf_data = None\<rparr>]
     \<noteq> [\<lparr>tokens = [\<lparr>orth = 2\<rparr>], trf_data = None\<rparr>, \<lparr>tokens = [\<lparr>orth = 1\<rparr>], trf_data = None\<rparr>]
   \<and> get_batch_id
       [\<lparr>tokens = [\<lparr>orth = 1\<rparr>], trf_data = None\<rparr>, \<lparr>tokens = [\<lparr>orth = 2\<rparr>], trf_data = None\<rparr>]
     = get_batch_id
       [\<lparr>tokens = [\<lparr>orth = 2\<rparr>], trf_data = None\<rparr>, \<lparr>tokens = [\<lparr>orth = 1\<rparr>], trf_data = None\<rparr>]
   \<and> [\<lparr>tokens = [\<lparr>orth = 1\<rparr>, \<lparr>orth = 2\<rparr>], trf_data = None\<rparr>]
     \<noteq> [\<lparr>tokens = [\<lparr>orth = 2\<rparr>, \<lparr>orth = 1\<rparr>], trf_data = None\<rparr>]
   \<and> get_batch_id [\<lparr>tokens = [\<lparr>orth = 1\<rparr>, \<lparr>orth = 2\<rparr>], trf_data = None\<rparr>]
     = get_batch_id [\<lparr>tokens = [\<lparr>orth = 2\<rparr>, \<lparr>orth = 1\<rparr>], trf_data = None\<rparr>]"
  by (simp add: get_batch_id_def)

text \<open>
  Claim C4, amended. The fingerprint is the sum of all token identities of the batch and
  so does not depend on their order: two batches that present the same token identities,
  each as often, in whatever order of documents and tokens, have the same fingerprint.
\<close>

theorem get_batch_id_order_insensitive:
  "mset (token_ids d1) = mset (token_ids d2) \<Longrightarrow> get_batch_id d1 = get_batch_id d2"
  by (simp add: get_batch_id_sum_mset)

theorem get_batch_id_order_insensitive_witness:
  "mset (token_ids [\<lparr>tokens = [\<lparr>orth = 1\<rparr>, \<lparr>orth = 2\<rparr>], trf_data = None\<rparr>,
                    \<lparr>tokens = [\<lparr>orth = 7\<rparr>], trf_data = None\<rparr>])
     = mset (token_ids [\<lparr>tokens = [\<lparr>orth = 7\<rparr>, \<lparr>orth = 2\<rparr>], trf_data = None\<rparr>,
                        \<lparr>tokens = [\<lparr>orth = 1\<rparr>], trf_data = None\<rparr>])
   \<and> get_batch_id [\<lparr>tokens = [\<lparr>orth = 1\<rparr>, \<lparr>orth = 2\<rparr>], trf_data = None\<rparr>,
                   \<lparr>tokens = [\<lparr>orth = 7\<rparr>], trf_data = None\<rparr>]
     = get_batch_id [\<lparr>tokens = [\<lparr>orth = 7\<rparr>, \<lparr>orth = 2\<rparr>], trf_data = None\<rparr>,
                     \<lparr>tokens = [\<lparr>orth = 1\<rparr>], trf_data = None\<rparr>]"
proof -
  have h: "mset (token_ids [\<lparr>tokens = [\<lparr>orth = 1\<rparr>, \<lparr>orth = 2\<rparr>], trf_data = None\<rparr>,
                    \<lparr>tokens = [\<lparr>orth = 7\<rparr>], trf_data = None\<rparr>])
     = mset (token_ids [\<lparr>tokens = [\<lparr>orth = 7\<rparr>, \<lparr>orth = 2\<rparr>], trf_data = None\<rparr>,
                        \<lparr>tokens = [\<lparr>orth = 1\<rparr>], trf_data = None\<rparr>])"
    by (simp add: token_ids_def)
  show ?thesis
    using h get_batch_id_order_insensitive [OF h] by simp
qed

text \<open>
  Claim C7, as stated, fails in its last part: the callback that is returned is no
  identity. It ignores what it is called on: to a gradient of one element, which is what
  matches the one output, it answers the empty sequence of documents, as it does to the
  empty gradient.
\<close>

theorem consume_empty_backward_counterexample:
  "forward (new_listener ''transformer'' 4) [] False
     = Inr (Some [Some transformer_data_empty], Some (ReturnDocs []))
   \<and> [transformer_data_empty] \<noteq> ([] :: tdata list)
   \<and> call sample_env (ReturnDocs []) [transformer_data_empty] (sample_world sample_heap)
       = Inr (ReturnedDocs [], sample_world sample_heap)
   \<and> call sample_env (ReturnDocs []) [] (sample_world sample_heap)
       = Inr (ReturnedDocs [], sample_world sample_heap)
   \<and> length (call_return_docs [] [transformer_data_empty])
       \<noteq> length [transformer_data_empty :: tdata]"
  by (simp add: forward_def call_return_docs_def)

text \<open>
  Claim C7, amended. When predicting on an empty sequence of documents, the listener's
  \<^verbatim>\<open>forward\<close> returns a list with exactly one element, the empty value, which holds no
  wordpiece and no tensor, together with a backward function that ignores its argument:
  whatever it is called on, it returns the documents it was made with, here the empty
  sequence, and changes nothing.
\<close>

theorem consume_empty_predict:
  "forward l [] False = Inr (Some [Some transformer_data_empty], Some (ReturnDocs []))
   \<and> tensors (transformer_data_empty :: tdata) = []
   \<and> wordpiece_tokens (transformer_data_empty :: tdata) = []
   \<and> (\<forall>env d w. call env (ReturnDocs []) d w = Inr (ReturnedDocs [], w))"
  by (simp add: forward_def transformer_data_empty_def call_return_docs_def)

section \<open>Properties of the pipeline component\<close>

text \<open>
  Claim C5. With no listener registered, \<^verbatim>\<open>update\<close> fails with the error that
  \<^verbatim>\<open>self.listeners[-1]\<close> raises, whatever its other arguments are; nothing is returned
  for the step.
\<close>

theorem update_no_listeners:
  "listeners t = [] \<Longrightarrow>
   update t examples drop_rate sgd losses_arg set_annot w = Inl IndexError"
  by (simp add: update_def Let_def split: prod.splits)

theorem update_no_listeners_witness:
  "listeners (sample_transformer []) = []
   \<and> update (sample_transformer []) [\<lparr>eg_doc = sample_doc [1, 2]\<rparr>] 0 True None False
       (sample_world (\<lambda>a. [])) = Inl IndexError"
proof -
  have h: "listeners (sample_transformer []) = []"
    by (simp add: sample_transformer_def)
  show ?thesis
    using h update_no_listeners [OF h] by simp
qed

subsection \<open>Batches of pipe\<close>

lemma concat_chunks: "concat (chunks k xs) = xs"
proof (induction k xs rule: chunks.induct)
  case (1 k)
  then show ?case by simp
next
  case (2 k x xs)
  then show ?case by (simp add: append_take_drop_id)
qed

lemma chunks_lengths:
  "b \<in> set (chunks k xs) \<Longrightarrow> 0 < length b \<and> length b \<le> Suc k"
  by (induction k xs rule: chunks.induct) auto

lemma chunks_full:
  "b \<in> set (butlast (chunks k xs)) \<Longrightarrow> length b = Suc k"
proof (induction k xs rule: chunks.induct)
  case (1 k)
  then show ?case by simp
next
  case (2 k x xs)
  show ?case
  proof (cases "chunks k (drop k xs) = []")
    case True
    with 2 show ?thesis by simp
  next
    case False
    then have "drop k xs \<noteq> []" by (cases "drop k xs") auto
    then have "k < length xs" by simp
    with 2 False show ?thesis by (auto simp: min_def)
  qed
qed

lemma chunks_list_all: "list_all P xs \<Longrightarrow> b \<in> set (chunks k xs) \<Longrightarrow> list_all P b"
proof (induction k xs rule: chunks.induct)
  case (1 k)
  then show ?case by simp
next
  case (2 k x xs)
  have "list_all P (drop k xs)"
    using 2(2) by (auto simp: list_all_iff dest: in_set_dropD)
  moreover have "list_all P (take k xs)"
    using 2(2) by (auto simp: list_all_iff dest: in_set_takeD)
  ultimately show ?case using 2 by auto
qed

lemma pipe_loop_calls:
  "pipe_loop t ax bs w = Inr (ys, w') \<Longrightarrow>
   predict_calls w' = predict_calls w @ map (map eg2doc) bs"
proof (induction bs arbitrary: w ys)
  case Nil
  then show ?case by simp
next
  case (Cons b bs)
  then show ?case
    by (auto simp: batch_docs_def predict_def Let_def split: sum.splits if_splits prod.splits)
qed

lemma pipe_loop_succeeds:
  "ax \<or> (\<forall>b \<in> set bs. list_all is_doc b) \<Longrightarrow> \<exists>ys w'. pipe_loop t ax bs w = Inr (ys, w')"
proof (induction bs arbitrary: w)
  case Nil
  then show ?case by simp
next
  case (Cons b bs)
  obtain outs w1 where p: "predict t (map eg2doc b) w = (outs, w1)"
    by (cases "predict t (map eg2doc b) w")
  from Cons obtain ys w' where "pipe_loop t ax bs w1 = Inr (ys, w')" by fastforce
  with Cons.prems p show ?case
    by (auto simp: batch_docs_def Let_def)
qed

lemma minibatch_pos:
  "0 < n \<Longrightarrow> n \<le> sys_maxsize \<Longrightarrow> minibatch xs n = Inr (chunks (nat n - 1) xs)"
  by (simp add: minibatch_def)

lemma pipe_out_of_range:
  "max batch_size (max_batch_size t) < 0 \<or> sys_maxsize < max batch_size (max_batch_size t) \<Longrightarrow>
   pipe t stream batch_size as_example w = Inl ValueError"
  by (simp add: pipe_def minibatch_def Let_def)

lemma pipe_zero:
  "max batch_size (max_batch_size t) = 0 \<Longrightarrow> pipe t stream batch_size as_example w = Inr ([], w)"
  by (simp add: pipe_def minibatch_def Let_def sys_maxsize_def)

lemma pipe_in_range:
  assumes "0 < max batch_size (max_batch_size t)"
    and "max batch_size (max_batch_size t) \<le> sys_maxsize"
    and "as_example \<or> list_all is_doc stream"
  shows "\<exists>ys w'. pipe t stream batch_size as_example w = Inr (ys, w')
     \<and> (\<exists>bs. predict_calls w' = predict_calls w @ bs
          \<and> concat bs = map eg2doc stream
          \<and> (\<forall>b \<in> set bs. 0 < length b \<and> int (length b) \<le> max batch_size (max_batch_size t))
          \<and> (\<forall>b \<in> set (butlast bs). int (length b) = max batch_size (max_batch_size t)))"
proof -
  let ?n = "max batch_size (max_batch_size t)"
  let ?k = "nat ?n - 1"
  let ?bs = "chunks ?k stream"
  have mb: "minibatch stream ?n = Inr ?bs"
    using assms(1,2) by (rule minibatch_pos)
  have suc: "int (Suc ?k) = ?n" using assms(1) by linarith
  have "as_example \<or> (\<forall>b \<in> set ?bs. list_all is_doc b)"
    using assms(3) chunks_list_all by blast
  then obtain ys w' where run: "pipe_loop t as_example ?bs w = Inr (ys, w')"
    using pipe_loop_succeeds by blast
  have p: "pipe t stream batch_size as_example w = Inr (ys, w')"
    using mb run by (simp add: pipe_def Let_def)
  have calls: "predict_calls w' = predict_calls w @ map (map eg2doc) ?bs"
    using pipe_loop_calls [OF run] .
  have c1: "concat (map (map eg2doc) ?bs) = map eg2doc stream"
    by (simp add: concat_chunks flip: map_concat)
  have c2: "\<forall>b \<in> set (map (map eg2doc) ?bs). 0 < length b \<and> int (length b) \<le> ?n"
    using chunks_lengths [of _ ?k stream] suc by fastforce
  have c3: "\<forall>b \<in> set (butlast (map (map eg2doc) ?bs)). int (length b) = ?n"
    using chunks_full [of _ ?k stream] suc by (fastforce simp: map_butlast [symmetric])
  show ?thesis using p calls c1 c2 c3 by blast
qed

lemma pipe_below_max:
  "batch_size < max_batch_size t \<Longrightarrow>
   pipe t stream batch_size as_example w = pipe t stream (max_batch_size t) as_example w"
  by (simp add: pipe_def Let_def max_def)

text \<open>
  Claim C10, as stated, fails: \<^verbatim>\<open>max_batch_size\<close> is no lower bound on the number of
  documents of a \<^verbatim>\<open>predict\<close> call, and the documents are not all processed in batches
  of \<^verbatim>\<open>max_batch_size\<close>. With \<^verbatim>\<open>max_batch_size\<close> 2, a stream of three documents
  and a requested size of 1, the second call gets the one document that is left.
\<close>

theorem pipe_last_batch_counterexample:
  "max_batch_size (sample_transformer []) = 2
   \<and> calls_of (pipe (sample_transformer []) sample_stream 1 False (sample_world sample_heap))
       = Inr [[sample_doc [1], sample_doc [2]], [sample_doc [3]]]
   \<and> int (length [sample_doc [3]]) < max_batch_size (sample_transformer [])"
  by (simp add: calls_of_def pipe_def minibatch_def sample_transformer_def sample_stream_def
      batch_docs_def predict_def sample_world_def Let_def sys_maxsize_def)

text \<open>
  Claim C10, amended. \<^verbatim>\<open>pipe\<close> cuts the stream into batches of the larger of the
  requested batch size and the configured \<^verbatim>\<open>max_batch_size\<close>. When that size is
  negative or above \<^verbatim>\<open>sys.maxsize\<close>, \<^verbatim>\<open>pipe\<close> fails with \<open>ValueError\<close>; when it is 0,
  nothing is predicted. When it is in between, on a stream the encoder accepts,
  \<^verbatim>\<open>pipe\<close> returns, and the batches handed to \<^verbatim>\<open>predict\<close> are the stream in order,
  every batch but the last of exactly that size and the last one not empty and not
  larger. So \<^verbatim>\<open>max_batch_size\<close> bounds the size of the batches from below and never from
  above, and a request below \<^verbatim>\<open>max_batch_size\<close> is served exactly as a request of
  \<^verbatim>\<open>max_batch_size\<close>.
\<close>

theorem pipe_batch_size:
  "(max batch_size (max_batch_size t) < 0 \<or> sys_maxsize < max batch_size (max_batch_size t) \<longrightarrow>
      pipe t stream batch_size as_example w = Inl ValueError)
   \<and> (max batch_size (max_batch_size t) = 0 \<longrightarrow>
        pipe t stream batch_size as_example w = Inr ([], w))
   \<and> (0 < max batch_size (max_batch_size t) \<longrightarrow>
        max batch_size (max_batch_size t) \<le> sys_maxsize \<longrightarrow>
        as_example \<or> list_all is_doc stream \<longrightarrow>
        (\<exists>ys w'. pipe t stream batch_size as_example w = Inr (ys, w')
           \<and> (\<exists>bs. predict_calls w' = predict_calls w @ bs
                \<and> concat bs = map eg2doc stream
                \<and> (\<forall>b \<in> set bs. 0 < length b
                      \<and> int (length b) \<le> max batch_size (max_batch_size t))
                \<and> (\<forall>b \<in> set (butlast bs).
                      int (length b) = max batch_size (max_batch_size t)))))
   \<and> (batch_size < max_batch_size t \<longrightarrow>
        pipe t stream batch_size as_example w = pipe t stream (max_batch_size t) as_example w)"
  using pipe_out_of_range [of batch_size t stream as_example w]
    pipe_zero [of batch_size t stream as_example w]
    pipe_in_range [of batch_size t as_example stream w]
    pipe_below_max [of batch_size t stream as_example w]
  by (intro conjI impI) assumption+

lemma sample_pipe_hyps:
  "0 < max 1 (max_batch_size (sample_transformer []))"
  "max 1 (max_batch_size (sample_transformer [])) \<le> sys_maxsize"
  "False \<or> list_all is_doc sample_stream"
  "1 < max_batch_size (sample_transformer [])"
  by (simp_all add: sample_transformer_def sample_stream_def sys_maxsize_def)

theorem pipe_batch_size_witness:
  "0 < max 1 (max_batch_size (sample_transformer []))
   \<and> max 1 (max_batch_size (sample_transformer [])) \<le> sys_maxsize
   \<and> (False \<or> list_all is_doc sample_stream)
   \<and> 1 < max_batch_size (sample_transformer [])
   \<and> (\<exists>ys w'. pipe (sample_transformer []) sample_stream 1 False (sample_world sample_heap)
                   = Inr (ys, w')
     \<and> (\<exists>bs. predict_calls w' = predict_calls (sample_world sample_heap) @ bs
          \<and> concat bs = map eg2doc sample_stream
          \<and> (\<forall>b \<in> set bs. 0 < length b
                \<and> int (length b) \<le> max 1 (max_batch_size (sample_transformer [])))
          \<and> (\<forall>b \<in> set (butlast bs).
                int (length b) = max 1 (max_batch_size (sample_transformer [])))))
   \<and> pipe (sample_transformer []) sample_stream 1 False (sample_world sample_heap)
       = pipe (sample_transformer []) sample_stream (max_batch_size (sample_transformer []))
           False (sample_world sample_heap)"
proof -
  note r = pipe_batch_size [of 1 "sample_transformer []" sample_stream False
      "sample_world sample_heap"]
  note r3 = conjunct1 [OF conjunct2 [OF conjunct2 [OF r]], THEN mp, THEN mp, THEN mp,
      OF sample_pipe_hyps(1) sample_pipe_hyps(2) sample_pipe_hyps(3)]
  note r4 = conjunct2 [OF conjunct2 [OF conjunct2 [OF r]], THEN mp, OF sample_pipe_hyps(4)]
  show ?thesis
    by (intro conjI) (rule sample_pipe_hyps r3 r4)+
qed

section \<open>Properties of the serialization shim\<close>

lemma to_bytes_msg_keys:
  "to_bytes_msg lib self = Inr msg \<Longrightarrow>
   map fst msg = [''config'', ''state'', ''tokenizer'', ''tokenizer_config'',
                  ''transformer_config'']"
  by (auto simp: to_bytes_msg_def Let_def split: sum.splits option.splits prod.splits)

lemma to_bytes_msg_no_model:
  "transformer (hfmodel self) = None \<Longrightarrow>
   to_bytes_msg lib self =
     Inr [(''config'', MMap []), (''state'', MMap []), (''tokenizer'', MMap []),
          (''tokenizer_config'', tokenizer_config (hfmodel self)),
          (''transformer_config'', transformer_config (hfmodel self))]"
  by (simp add: to_bytes_msg_def Let_def)

lemma to_bytes_of_msg:
  "to_bytes_msg lib self = Inr msg \<Longrightarrow> to_bytes lib self = Inr (msgpack_dumps lib (MMap msg))"
  by (simp add: to_bytes_def)

lemma to_bytes_fails:
  "to_bytes_msg lib self = Inl e \<Longrightarrow> to_bytes lib self = Inl e"
  by (simp add: to_bytes_def)

text \<open>
  Claim C9. Whenever \<^verbatim>\<open>to_bytes\<close> returns, what it returns is the encoding of a
  dictionary whose keys are exactly config, state, tokenizer, tokenizer_config and
  transformer_config (it returns nothing only when a collaborator fails). When the shim
  has no encoder, it does return, and the configuration, the weights and the tokenizer
  files of the bundle are empty dictionaries.
\<close>

theorem to_bytes_keys:
  "(\<forall>msg. to_bytes_msg lib self = Inr msg \<longrightarrow>
      to_bytes lib self = Inr (msgpack_dumps lib (MMap msg))
      \<and> map fst msg = [''config'', ''state'', ''tokenizer'', ''tokenizer_config'',
                       ''transformer_config''])
   \<and> (\<forall>e. to_bytes_msg lib self = Inl e \<longrightarrow> to_bytes lib self = Inl e)
   \<and> (transformer (hfmodel self) = None \<longrightarrow>
        to_bytes_msg lib self =
          Inr [(''config'', MMap []), (''state'', MMap []), (''tokenizer'', MMap []),
               (''tokenizer_config'', tokenizer_config (hfmodel self)),
               (''transformer_config'', transformer_config (hfmodel self))])"
  using to_bytes_msg_keys to_bytes_msg_no_model to_bytes_of_msg to_bytes_fails
  by (intro conjI allI impI) assumption+

lemma sample_empty_shim_no_model: "transformer (hfmodel sample_empty_shim) = None"
  by (simp add: sample_empty_shim_def new_hf_shim_def)

lemma sample_live_msg:
  "to_bytes_msg sample_lib sample_live_shim =
     Inr [(''config'', MMap [(''hidden_size'', MInt 768)]), (''state'', MBin [768]),
          (''tokenizer'', MMap [(''vocab.txt'', MBin [104, 105])]),
          (''tokenizer_config'', MMap []), (''transformer_config'', MMap [])]"
  by (simp add: to_bytes_msg_def sample_lib_def sample_live_shim_def new_hf_shim_def)

theorem to_bytes_keys_witness:
  "transformer (hfmodel sample_empty_shim) = None
   \<and> to_bytes_msg sample_lib sample_empty_shim =
       Inr [(''config'', MMap []), (''state'', MMap []), (''tokenizer'', MMap []),
            (''tokenizer_config'', tokenizer_config (hfmodel sample_empty_shim)),
            (''transformer_config'', transformer_config (hfmodel sample_empty_shim))]
   \<and> to_bytes_msg sample_lib sample_live_shim =
       Inr [(''config'', MMap [(''hidden_size'', MInt 768)]), (''state'', MBin [768]),
            (''tokenizer'', MMap [(''vocab.txt'', MBin [104, 105])]),
            (''tokenizer_config'', MMap []), (''transformer_config'', MMap [])]
   \<and> to_bytes sample_lib sample_live_shim =
       Inr (msgpack_dumps sample_lib
         (MMap [(''config'', MMap [(''hidden_size'', MInt 768)]), (''state'', MBin [768]),
            (''tokenizer'', MMap [(''vocab.txt'', MBin [104, 105])]),
            (''tokenizer_config'', MMap []), (''transformer_config'', MMap [])]))"
proof -
  note k1 = to_bytes_keys [of sample_lib sample_empty_shim]
  note k2 = to_bytes_keys [of sample_lib sample_live_shim]
  have a: "to_bytes_msg sample_lib sample_empty_shim =
       Inr [(''config'', MMap []), (''state'', MMap []), (''tokenizer'', MMap []),
            (''tokenizer_config'', tokenizer_config (hfmodel sample_empty_shim)),
            (''transformer_config'', transformer_config (hfmodel sample_empty_shim))]"
    by (rule mp [OF conjunct2 [OF conjunct2 [OF k1]] sample_empty_shim_no_model])
  have b: "to_bytes sample_lib sample_live_shim =
       Inr (msgpack_dumps sample_lib
         (MMap [(''config'', MMap [(''hidden_size'', MInt 768)]), (''state'', MBin [768]),
            (''tokenizer'', MMap [(''vocab.txt'', MBin [104, 105])]),
            (''tokenizer_config'', MMap []), (''transformer_config'', MMap [])]))"
    by (rule conjunct1 [OF mp [OF spec [OF conjunct1 [OF k2]] sample_live_msg]])
  show ?thesis
    by (intro conjI) (rule sample_empty_shim_no_model a sample_live_msg b)+
qed

section \<open>Decoding a bundle with an empty configuration\<close>

text \<open>
  Claim C8, as stated, fails. \<^verbatim>\<open>from_bytes\<close> returns the shim it was called on, and
  with an empty configuration it has not touched it: called on a shim that holds an
  encoder, with the bundle that a shim without a model encodes to, it returns a shim
  that still holds the encoder.
\<close>

theorem from_bytes_live_receiver_counterexample:
  "getitem sample_empty_bundle ''config'' = Inr (MMap [])
   \<and> \<not> truthy (MMap [])
   \<and> to_bytes sample_lib sample_empty_shim = Inr sample_empty_bundle
   \<and> from_bytes sample_lib sample_live_shim sample_empty_bundle = Inr sample_live_shim
   \<and> holds_live_model sample_live_shim"
  by (simp add: from_bytes_def and_then_def to_bytes_def to_bytes_msg_def sample_lib_def
      sample_empty_shim_def sample_live_shim_def sample_empty_bundle_def new_hf_shim_def
      holds_live_model_def)

text \<open>
  Claim C8, amended. For every bundle that has the fields config, tokenizer,
  tokenizer_config and transformer_config and whose configuration is empty,
  \<^verbatim>\<open>from_bytes\<close> does not raise and returns the shim it was called on, unchanged; so
  the result holds no live model exactly when the receiving shim held none.
\<close>

theorem from_bytes_empty_config:
  assumes "msgpack_loads lib bytes_data = Inr msg"
    and "getitem msg ''config'' = Inr config_dict" and "\<not> truthy config_dict"
    and "getitem msg ''tokenizer'' = Inr tok_dict"
    and "getitem msg ''tokenizer_config'' = Inr tok_config"
    and "getitem msg ''transformer_config'' = Inr trf_config"
  shows "from_bytes lib self bytes_data = Inr self"
  using assms by (simp add: from_bytes_def and_then_def)

theorem from_bytes_empty_config_witness:
  "msgpack_loads sample_lib sample_empty_bundle = Inr sample_empty_bundle
   \<and> getitem sample_empty_bundle ''config'' = Inr (MMap []) \<and> \<not> truthy (MMap [])
   \<and> getitem sample_empty_bundle ''tokenizer'' = Inr (MMap [])
   \<and> getitem sample_empty_bundle ''tokenizer_config'' = Inr (MMap [])
   \<and> getitem sample_empty_bundle ''transformer_config'' = Inr (MMap [])
   \<and> from_bytes sample_lib sample_empty_shim sample_empty_bundle = Inr sample_empty_shim
   \<and> \<not> holds_live_model sample_empty_shim"
proof -
  have h1: "msgpack_loads sample_lib sample_empty_bundle = Inr sample_empty_bundle"
    by (simp add: sample_lib_def)
  have h2: "getitem sample_empty_bundle ''config'' = Inr (MMap [])"
    by (simp add: sample_empty_bundle_def)
  have h3: "\<not> truthy (MMap [])" by simp
  have h4: "getitem sample_empty_bundle ''tokenizer'' = Inr (MMap [])"
    by (simp add: sample_empty_bundle_def)
  have h5: "getitem sample_empty_bundle ''tokenizer_config'' = Inr (MMap [])"
    by (simp add: sample_empty_bundle_def)
  have h6: "getitem sample_empty_bundle ''transformer_config'' = Inr (MMap [])"
    by (simp add: sample_empty_bundle_def)
  have h7: "\<not> holds_live_model sample_empty_shim"
    by (simp add: holds_live_model_def sample_empty_shim_def new_hf_shim_def)
  note r = from_bytes_empty_config [OF h1 h2 h3 h4 h5 h6, of sample_empty_shim]
  show ?thesis
    by (intro conjI) (rule h1 h2 h3 h4 h5 h6 h7 r)+
qed


section \<open>Properties of split and merge\<close>

lemma split_tensors_nth:
  "0 < n_docs b \<Longrightarrow> i < n_docs b \<Longrightarrow>
   map tensors (split_by_doc b g) ! i = map (\<lambda>t. take (doc_span b i) (t ! i)) g"
  by (simp add: split_by_doc_def)

lemma length_split: "0 < n_docs b \<Longrightarrow> length (split_by_doc b g) = n_docs b"
  by (simp add: split_by_doc_def)

lemma merge_row_split:
  assumes "0 < n_docs b" "i < n_docs b" "k < length g"
    "length (g ! k ! i) = seq_len b" "doc_span b i \<le> seq_len b"
  shows "merge_row (seq_len b) (map tensors (split_by_doc b g)) k i
       = take (doc_span b i) (g ! k ! i) @ replicate (seq_len b - doc_span b i) 0"
  using assms by (simp add: merge_row_def split_by_doc_def Let_def min_def)

lemma matches_shapeD:
  assumes "matches_shape b g"
  shows "length g = length (model_tensors b)"
    and "k < length g \<Longrightarrow> length (g ! k) = n_docs b"
    and "k < length g \<Longrightarrow> i < n_docs b \<Longrightarrow> length (g ! k ! i) = seq_len b"
    and "i < n_docs b \<Longrightarrow> doc_span b i \<le> seq_len b"
  using assms by (auto simp: matches_shape_def list_all_length doc_span_def n_docs_def)

lemma round_trip:
  assumes "matches_shape b g"
  shows "unsplit_by_doc_spec b (map tensors (split_by_doc b g)) = zero_padding b g"
proof (cases "n_docs b = 0")
  case True
  then have "\<forall>t \<in> set g. length t = 0"
    using assms by (auto simp: matches_shape_def list_all_iff)
  then have a: "zero_padding b g = map (\<lambda>t. []) g"
    by (simp add: zero_padding_def)
  have u: "unsplit_by_doc_spec b (map tensors (split_by_doc b g)) = map (\<lambda>k. []) [0..<length g]"
    using True matches_shapeD(1) [OF assms] by (simp add: unsplit_by_doc_spec_def)
  have c: "map (\<lambda>k. []) [0..<length g] = map (\<lambda>t. []) g"
    by (rule nth_equalityI) simp_all
  show ?thesis by (rule trans [OF u trans [OF c a [symmetric]]])
next
  case False
  then have pos: "0 < n_docs b" by simp
  show ?thesis
  proof (rule nth_equalityI)
    show "length (unsplit_by_doc_spec b (map tensors (split_by_doc b g))) = length (zero_padding b g)"
      using matches_shapeD(1) [OF assms] by (simp add: unsplit_by_doc_spec_def zero_padding_def)
  next
    fix k assume "k < length (unsplit_by_doc_spec b (map tensors (split_by_doc b g)))"
    then have k: "k < length g"
      using matches_shapeD(1) [OF assms] by (simp add: unsplit_by_doc_spec_def)
    have lk: "length (g ! k) = n_docs b" using matches_shapeD(2) [OF assms k] .
    have "map (\<lambda>i. merge_row (seq_len b) (map tensors (split_by_doc b g)) k i) [0..<n_docs b]
        = map (\<lambda>i. take (doc_span b i) (g ! k ! i) @ replicate (seq_len b - doc_span b i) 0) [0..<n_docs b]"
      using merge_row_split [OF pos _ k] matches_shapeD(3) [OF assms k] matches_shapeD(4) [OF assms]
      by simp
    then show "unsplit_by_doc_spec b (map tensors (split_by_doc b g)) ! k = zero_padding b g ! k"
      using k lk matches_shapeD(1) [OF assms]
      by (simp add: unsplit_by_doc_spec_def zero_padding_def)
  qed
qed

lemma zero_padding_nth:
  assumes "matches_shape b g" "k < length g" "i < n_docs b" "p < seq_len b"
  shows "zero_padding b g ! k ! i ! p = (if p < doc_span b i then g ! k ! i ! p else 0)"
  using assms matches_shapeD(2) [OF assms(1,2)] matches_shapeD(3) [OF assms(1,2,3)]
    matches_shapeD(4) [OF assms(1,3)]
  by (simp add: zero_padding_def nth_append)

lemma split_ignores_padding:
  assumes "matches_shape b g"
  shows "split_by_doc b (zero_padding b g) = split_by_doc b g"
proof (cases "n_docs b = 0")
  case True
  then show ?thesis by (simp add: split_by_doc_def)
next
  case False
  have "\<And>i t. i < n_docs b \<Longrightarrow> t \<in> set g \<Longrightarrow>
      take (doc_span b i) (map (\<lambda>i. take (doc_span b i) (t ! i) @ replicate (seq_len b - doc_span b i) 0) [0..<length t] ! i)
      = take (doc_span b i) (t ! i)"
  proof -
    fix i t assume i: "i < n_docs b" and t: "t \<in> set g"
    have lt: "length t = n_docs b" and li: "length (t ! i) = seq_len b"
      using assms t i by (auto simp: matches_shape_def list_all_iff list_all_length)
    have "doc_span b i \<le> seq_len b" using matches_shapeD(4) [OF assms i] .
    then show "take (doc_span b i) (map (\<lambda>i. take (doc_span b i) (t ! i) @ replicate (seq_len b - doc_span b i) 0) [0..<length t] ! i)
      = take (doc_span b i) (t ! i)"
      using i lt li by simp
  qed
  then show ?thesis using False
    by (simp add: split_by_doc_def zero_padding_def)
qed

text \<open>
  Claim C2. For every gradient tensor sequence that matches the shape of the batch's
  tensors, splitting it by document and handing the slices to the callback of the split
  layer, which merges them, gives the gradient back with its padding positions set to
  zero: at every position inside a document's span the entry is the one of the gradient,
  at every padding position it is zero. And the split does not look at the padding: the
  gradient and the gradient with zeroed padding have the same slices.
\<close>

theorem split_merge_round_trip:
  assumes "matches_shape b g"
  shows "snd (split_trf_forward b) (split_by_doc b g) = zero_padding b g
     \<and> (\<forall>k < length g. \<forall>i < n_docs b. \<forall>p < seq_len b.
          zero_padding b g ! k ! i ! p = (if p < doc_span b i then g ! k ! i ! p else 0))
     \<and> split_by_doc b (zero_padding b g) = split_by_doc b g"
  using round_trip [OF assms] zero_padding_nth [OF assms] split_ignores_padding [OF assms]
  by (simp add: split_trf_forward_def)

lemma sample_matches: "matches_shape sample_batch sample_ones"
  by (simp add: matches_shape_def sample_batch_def sample_ones_def n_docs_def)

lemma sample_zero_padding:
  "zero_padding sample_batch sample_ones = [[[1, 1, 1, 1, 1], [1, 1, 0, 0, 0]]]"
  by (simp add: zero_padding_def sample_batch_def sample_ones_def doc_span_def upt_rec numeral_eq_Suc)


lemma sample_split:
  "map tensors (split_by_doc sample_batch sample_ones) = [[[1, 1, 1, 1, 1]], [[1, 1]]]"
  by (simp add: split_by_doc_def sample_batch_def sample_ones_def doc_span_def n_docs_def
      upt_rec numeral_eq_Suc)

theorem split_merge_round_trip_witness:
  "matches_shape sample_batch sample_ones
   \<and> snd (split_trf_forward sample_batch) (split_by_doc sample_batch sample_ones)
       = [[[1, 1, 1, 1, 1], [1, 1, 0, 0, 0]]]"
proof -
  note r = split_merge_round_trip [OF sample_matches]
  have "snd (split_trf_forward sample_batch) (split_by_doc sample_batch sample_ones)
       = [[[1, 1, 1, 1, 1], [1, 1, 0, 0, 0]]]"
    by (rule trans [OF conjunct1 [OF r] sample_zero_padding])
  with sample_matches show ?thesis by (rule conjI)
qed

section \<open>Properties of the gradient accumulation\<close>

subsection \<open>What one call of a callback changes\<close>


lemma add_loop_frame:
  "add_loop h row as = Inr h' \<Longrightarrow> x \<notin> set row \<Longrightarrow> h' x = h x"
proof (induction h row as rule: add_loop.induct)
  case (1 h row)
  then show ?case by simp
next
  case (2 h a as)
  then show ?case by simp
next
  case (3 h r row a as)
  then show ?case
    by (auto simp: iadd_def split: sum.splits if_splits)
qed

lemma accumulate_loop_frame:
  "accumulate_loop n i ds w = Inr w' \<Longrightarrow>
   d_tensors w' = d_tensors w @ map tensors (drop (length (d_tensors w) - i) ds)
   \<and> (\<forall>x. x \<notin> set (concat (drop i (d_tensors w))) \<longrightarrow> heap w' x = heap w x)
   \<and> nodes w' = nodes w \<and> bp_calls w' = bp_calls w \<and> finish_updates w' = finish_updates w
   \<and> predict_calls w' = predict_calls w \<and> dropout_rate w' = dropout_rate w"
proof (induction ds arbitrary: i w)
  case Nil
  then show ?case by simp
next
  case (Cons d ds)
  from Cons.prems obtain ls where ls: "loss_loop n (heap w) (tensors d) (losses w) = Inr ls"
    by (auto split: sum.splits)
  show ?case
  proof (cases "i \<ge> length (d_tensors w)")
    case True
    let ?w1 = "w\<lparr>losses := ls, d_tensors := d_tensors w @ [tensors d]\<rparr>"
    from Cons.prems ls True have run: "accumulate_loop n (Suc i) ds ?w1 = Inr w'" by simp
    from Cons.IH [OF run] True show ?thesis by simp
  next
    case False
    then have lt: "i < length (d_tensors w)" by simp
    from Cons.prems ls False obtain h where
      h: "add_loop (heap w) (d_tensors w ! i) (tensors d) = Inr h"
      and run: "accumulate_loop n (Suc i) ds (w\<lparr>losses := ls, heap := h\<rparr>) = Inr w'"
      by (auto split: sum.splits)
    have split: "drop i (d_tensors w) = d_tensors w ! i # drop (Suc i) (d_tensors w)"
      using lt by (simp add: Cons_nth_drop_Suc)
    have fr: "\<And>x. x \<notin> set (concat (drop i (d_tensors w))) \<Longrightarrow> h x = heap w x"
    proof -
      fix x assume "x \<notin> set (concat (drop i (d_tensors w)))"
      then have "x \<notin> set (d_tensors w ! i)" using split by simp
      then show "h x = heap w x" using add_loop_frame [OF h] by simp
    qed
    have dr: "drop (length (d_tensors w) - i) (d # ds) = drop (length (d_tensors w) - Suc i) ds"
      using lt by (simp add: drop_Cons' )
    from Cons.IH [OF run] fr dr split show ?thesis by simp
  qed
qed

lemma backprop_closure_eq:
  "backprop_closure env g w =
     (case accumulate_gradient env g w of
        Inl e \<Rightarrow> Inl e
      | Inr w1 \<Rightarrow> Inr (env_bp_trf_full env
                       (unsplit_by_doc (env_model env) (env_trf_full env)
                          (map (map (heap w1)) (d_tensors w1))),
                     merge_and_backward env w1))"
  by (simp add: backprop_closure_def merge_and_backward_def Let_def split: sum.splits)

lemma predict_heap: "heap (snd (predict t docs w)) = heap w"
  by (simp add: predict_def Let_def)

lemma pipe_loop_heap:
  "pipe_loop t ax bs w = Inr (ys, w') \<Longrightarrow> heap w' = heap w"
proof (induction bs arbitrary: w ys)
  case Nil
  then show ?case by simp
next
  case (Cons b bs)
  then show ?case
    by (auto simp: batch_docs_def predict_def Let_def split: sum.splits if_splits prod.splits)
qed

lemma pipe_heap: "pipe t stream n ax w = Inr (ys, w') \<Longrightarrow> heap w' = heap w"
  by (auto simp: pipe_def Let_def split: sum.splits dest: pipe_loop_heap)

lemma update_heap:
  "update t examples drop_rate sgd losses_arg set_annot w = Inr (env, docs, w1) \<Longrightarrow>
   heap w1 = heap w \<and> d_tensors w1 = []"
  by (auto simp: update_def Let_def split: prod.splits if_splits)

lemma accumulate_gradient_frame:
  assumes "accumulate_gradient env d w = Inr w1"
  shows "d_tensors w1 = d_tensors w @ map tensors (drop (length (d_tensors w)) d)
     \<and> (\<forall>a. a \<notin> set (concat (d_tensors w)) \<longrightarrow> heap w1 a = heap w a)"
  using accumulate_loop_frame [OF assms [unfolded accumulate_gradient_def]] by simp

lemma backprop_closure_frame:
  assumes "backprop_closure env d w = Inr (r, w2)"
  shows "d_tensors w2 = d_tensors w @ map tensors (drop (length (d_tensors w)) d)
     \<and> (\<forall>a. a \<notin> set (concat (d_tensors w)) \<longrightarrow> heap w2 a = heap w a)"
proof -
  from assms obtain w1 where a: "accumulate_gradient env d w = Inr w1"
    and w2: "w2 = merge_and_backward env w1"
    by (auto simp: backprop_closure_eq split: sum.splits)
  have "d_tensors w2 = d_tensors w1" and "heap w2 = heap w1"
    using w2 by (simp_all add: merge_and_backward_def Let_def)
  then show ?thesis using accumulate_gradient_frame [OF a] by simp
qed

subsection \<open>The sample training step\<close>

lemma sample_update:
  "update (sample_transformer [5, 7]) [\<lparr>eg_doc = sample_doc [1, 2]\<rparr>] 0 True None False
     (sample_world sample_heap) = Inr sample_step"
  by (simp add: sample_step_def update_def sample_transformer_def Let_def sample_encoder_def)

lemma sample_env_eq:
  "sample_env = \<lparr>env_name = ''transformer'', env_model = sample_encoder,
      env_trf_full = \<lparr>doc_data = [transformer_data_empty]\<rparr>,
      env_bp_trf_full = (\<lambda>g. g), env_sgd = True\<rparr>"
  by (simp add: sample_env_def sample_step_def update_def sample_transformer_def Let_def
      sample_encoder_def)

lemma sample_trained_fields:
  "heap sample_trained = sample_heap"
  "d_tensors sample_trained = []"
  "losses sample_trained ''transformer'' = Some 0"
  "bp_calls sample_trained = []"
  "backprop (nodes sample_trained 5) = Some AccumulateGradient"
  "backprop (nodes sample_trained 7) = Some Backprop"
  by (simp_all add: sample_trained_def sample_step_def update_def sample_transformer_def Let_def
      sample_encoder_def sample_world_def receive_def)

lemma sample_accumulate:
  "accumulate_gradient sample_env (sample_gradient 0) sample_trained = Inr sample_accumulated"
  by (simp add: sample_accumulated_def sample_trained_fields sample_env_eq
      accumulate_gradient_def sample_gradient_def)

lemma sample_accumulated_fields:
  "heap sample_accumulated = sample_heap"
  "d_tensors sample_accumulated = [[0]]"
  by (simp_all add: sample_accumulated_def sample_trained_fields sample_env_eq
      accumulate_gradient_def sample_gradient_def)

lemma sample_finalize:
  "backprop_closure sample_env (sample_gradient 1) sample_accumulated
     = Inr (fst sample_finalized, snd sample_finalized)"
  by (simp add: sample_finalized_def sample_accumulated_def sample_trained_fields sample_env_eq
      accumulate_gradient_def backprop_closure_def sample_gradient_def sample_heap_def iadd_def
      Let_def)

lemma sample_finalized_fields:
  "array_at 0 (snd sample_finalized) = [11, 22]"
  "array_at 1 (snd sample_finalized) = [10, 20]"
  "bp_calls (snd sample_finalized) = [[[[11, 22]]]]"
  by (simp_all add: array_at_def sample_finalized_def sample_accumulated_def
      sample_trained_fields sample_env_eq
      accumulate_gradient_def backprop_closure_def sample_gradient_def sample_heap_def iadd_def
      sample_encoder_def Let_def)




lemma sample_in_order:
  "map_sum id (array_at 0)
     (call_all sample_env
        [(Some AccumulateGradient, sample_gradient 0),
         (Some Backprop, sample_gradient 1)] sample_trained)
   = Inr [11, 22]"
  by (simp add: sample_trained_fields sample_env_eq accumulate_gradient_def backprop_closure_def
      sample_gradient_def sample_heap_def iadd_def sample_encoder_def Let_def array_at_def)

subsection \<open>Arrays are changed in place\<close>

text \<open>
  Claim C6, as stated, fails. The accumulator of a training step refers to the very
  arrays of the gradient that came first, and later gradients are added into these
  arrays. In the sample step the first listener's gradient consists of the array at
  address 0, which holds 1 and 2; after both callbacks have been called, each on its
  listener's gradient, that array holds 11 and 22.
\<close>

theorem gradient_mutated_counterexample:
  "update (sample_transformer [5, 7]) [\<lparr>eg_doc = sample_doc [1, 2]\<rparr>] 0 True None False
     (sample_world sample_heap) = Inr sample_step
   \<and> sample_env = fst sample_step \<and> sample_trained = snd (snd sample_step)
   \<and> map tensors (sample_gradient 0) = [[0]]
   \<and> array_at 0 sample_trained = [1, 2]
   \<and> map_sum id (array_at 0)
       (call_all sample_env
          [(backprop (nodes sample_trained 5), sample_gradient 0),
           (backprop (nodes sample_trained 7), sample_gradient 1)] sample_trained)
       = Inr [11, 22]"
proof -
  have a: "map tensors (sample_gradient 0) = [[0]]" by (simp add: sample_gradient_def)
  have b: "array_at 0 sample_trained = [1, 2]"
    by (simp add: array_at_def sample_trained_fields sample_heap_def)
  have c: "map_sum id (array_at 0)
       (call_all sample_env
          [(backprop (nodes sample_trained 5), sample_gradient 0),
           (backprop (nodes sample_trained 7), sample_gradient 1)] sample_trained)
       = Inr [11, 22]"
    by (simp only: sample_trained_fields sample_in_order)
  show ?thesis
    by (intro conjI) (rule sample_update sample_env_def sample_trained_def a b c)+
qed

text \<open>
  Claim C6, amended. \<^verbatim>\<open>predict\<close>, \<^verbatim>\<open>pipe\<close> and \<^verbatim>\<open>update\<close> change no array, so the
  tensors of the outputs handed to the listeners stay as they are (a listener's
  \<^verbatim>\<open>receive\<close> and \<^verbatim>\<open>forward\<close> have no access to the store). The two gradient
  callbacks do change arrays in place: what they append to the accumulator are the
  tensor lists of the gradients that come first for their documents, arrays and all, and
  the only arrays they change are those the accumulator already refers to.
\<close>

theorem accumulation_in_place:
  "(\<forall>w1. accumulate_gradient env d w = Inr w1 \<longrightarrow>
      d_tensors w1 = d_tensors w @ map tensors (drop (length (d_tensors w)) d)
      \<and> (\<forall>a. a \<notin> set (concat (d_tensors w)) \<longrightarrow> heap w1 a = heap w a))
   \<and> (\<forall>r w2. backprop_closure env d w = Inr (r, w2) \<longrightarrow>
        d_tensors w2 = d_tensors w @ map tensors (drop (length (d_tensors w)) d)
        \<and> (\<forall>a. a \<notin> set (concat (d_tensors w)) \<longrightarrow> heap w2 a = heap w a))
   \<and> heap (snd (predict t docs w)) = heap w
   \<and> (\<forall>ys w3. pipe t stream n as_example w = Inr (ys, w3) \<longrightarrow> heap w3 = heap w)
   \<and> (\<forall>env1 docs1 w4.
         update t examples drop_rate sgd losses_arg set_annot w = Inr (env1, docs1, w4) \<longrightarrow>
         heap w4 = heap w \<and> d_tensors w4 = [])"
proof -
  have c1: "\<forall>w1. accumulate_gradient env d w = Inr w1 \<longrightarrow>
      d_tensors w1 = d_tensors w @ map tensors (drop (length (d_tensors w)) d)
      \<and> (\<forall>a. a \<notin> set (concat (d_tensors w)) \<longrightarrow> heap w1 a = heap w a)"
    by (intro allI impI) (rule accumulate_gradient_frame)
  have c2: "\<forall>r w2. backprop_closure env d w = Inr (r, w2) \<longrightarrow>
        d_tensors w2 = d_tensors w @ map tensors (drop (length (d_tensors w)) d)
        \<and> (\<forall>a. a \<notin> set (concat (d_tensors w)) \<longrightarrow> heap w2 a = heap w a)"
    by (intro allI impI) (rule backprop_closure_frame)
  have c3: "heap (snd (predict t docs w)) = heap w" by (rule predict_heap)
  have c4: "\<forall>ys w3. pipe t stream n as_example w = Inr (ys, w3) \<longrightarrow> heap w3 = heap w"
    by (intro allI impI) (rule pipe_heap)
  have c5: "\<forall>env1 docs1 w4.
         update t examples drop_rate sgd losses_arg set_annot w = Inr (env1, docs1, w4) \<longrightarrow>
         heap w4 = heap w \<and> d_tensors w4 = []"
    by (intro allI impI) (rule update_heap)
  show ?thesis
    by (rule conjI [OF c1 conjI [OF c2 conjI [OF c3 conjI [OF c4 c5]]]])
qed

lemma sample_other_array: "(1::nat) \<notin> set (concat (d_tensors sample_accumulated))"
  by (simp add: sample_accumulated_fields)

theorem accumulation_in_place_witness:
  "backprop_closure sample_env (sample_gradient 1) sample_accumulated
     = Inr (fst sample_finalized, snd sample_finalized)
   \<and> d_tensors (snd sample_finalized)
        = d_tensors sample_accumulated
          @ map tensors (drop (length (d_tensors sample_accumulated)) (sample_gradient 1))
   \<and> (1::nat) \<notin> set (concat (d_tensors sample_accumulated))
   \<and> heap (snd sample_finalized) 1 = heap sample_accumulated 1
   \<and> d_tensors sample_accumulated = [[0]]
   \<and> array_at 0 (snd sample_finalized) = [11, 22]"
proof -
  note r = accumulation_in_place [where env = sample_env and d = "sample_gradient 1"
      and w = sample_accumulated]
  note c = conjunct1 [OF conjunct2 [OF r], THEN spec, THEN spec, THEN mp, OF sample_finalize]
  note c1 = conjunct1 [OF c]
  note c2 = conjunct2 [OF c, THEN spec [where x = "1::nat"], THEN mp, OF sample_other_array]
  show ?thesis
    by (intro conjI) (rule sample_finalize c1 sample_other_array c2
        sample_accumulated_fields(2) sample_finalized_fields(1))+
qed

subsection \<open>The sum of the gradients\<close>



























end
